theory Spec2Isabelle
  imports Complex_Main "HOL-Library.Sublist"
begin

section \<open>JavaScript strings and truthiness\<close>

text \<open>
  Strings are character lists; a character stands for one code unit of the JavaScript
  string, and only the equality of characters matters below.
  \<open>String.prototype.includes\<close> asks whether the argument occurs as a contiguous run; it
  is case-sensitive. The function scans the receiver from left to right and tests for a
  prefix at every position.
\<close>

fun str_includes :: "string \<Rightarrow> string \<Rightarrow> bool" where
  "str_includes [] sub = (sub = [])"
| "str_includes (c # cs) sub = (prefix sub (c # cs) \<or> str_includes cs sub)"

text \<open>
  An optional string field is \<open>None\<close> when it is absent (\<open>undefined\<close>). In a boolean
  position both \<open>undefined\<close> and the empty string are falsy.
\<close>

definition truthy :: "string option \<Rightarrow> bool" where
  "truthy v = (case v of None \<Rightarrow> False | Some s \<Rightarrow> s \<noteq> [])"

definition LF :: char where
  "LF = CHR 0x0A"

section \<open>The HTTP client (axios)\<close>

datatype request_kind = completion | documentation | explanation

text \<open>
  The interface \<open>AICompletionRequest\<close> of \<open>aiService.ts\<close>. The field \<open>language\<close> is
  \<open>req_language\<close> here, since the application state has a field of that name; the
  temperature is the decimal literal of the source, as a rational.
\<close>

record AICompletionRequest =
  prompt :: string
  model :: "string option"
  system_prompt :: "string option"
  temperature :: "rat option"
  max_tokens :: "nat option"
  req_language :: "string option"
  request_type :: "request_kind option"

text \<open>The interface \<open>AICompletionResponse\<close>; its field \<open>model\<close> is \<open>resp_model\<close>.\<close>

record AICompletionResponse =
  response :: string
  resp_model :: string
  timestamp :: string
  provider :: "string option"

text \<open>The interface \<open>AIError\<close>: fields \<open>error\<close> and \<open>detail\<close> of an error body.\<close>

record AIError =
  body_error :: "string option"
  body_detail :: "string option"

text \<open>
  The body of a response with a failure status, as \<open>error.response.data\<close> holds it:
  \<^item> \<open>NullBody\<close>: the JSON value \<open>null\<close>; it is falsy, and reading a field of it throws
    a \<open>TypeError\<close>;
  \<^item> \<open>EmptyBody\<close>: no body, which axios hands over as the empty string; it is falsy,
    and reading a field of it gives \<open>undefined\<close>;
  \<^item> \<open>ObjectBody\<close>: any other body, read through the fields of \<open>AIError\<close> (a body
    without an \<open>error\<close> field has \<open>body_error = None\<close>).
\<close>

datatype response_body = NullBody | EmptyBody | ObjectBody AIError

record http_response =
  status :: nat
  statusText :: string
  data :: response_body

text \<open>
  The rejection of an axios call: \<open>error.message\<close>, \<open>error.code\<close>, \<open>error.response\<close>
  and whether \<open>error.request\<close> is set.
\<close>

record AxiosError =
  message :: string
  err_code :: "string option"
  err_response :: "http_response option"
  err_request :: bool

text \<open>
  What a \<open>catch\<close> clause can receive: an \<open>Error\<close> made with \<open>new Error(msg)\<close>, or the
  rejection of axios itself.
\<close>

datatype exn = Error string | Axios AxiosError

fun exn_message :: "exn \<Rightarrow> string" where
  "exn_message (Error m) = m"
| "exn_message (Axios e) = message e"

record suggestion =
  completion_text :: string
  confidence :: rat

text \<open>
  The value of the field \<open>suggestions\<close> of an answer, and of the state variable that
  stores it: an array of suggestions, or a truthy value of another kind (a string, a
  number, an object), kept by its text. Only an array has the \<open>map\<close> the page renders the
  list with (line 571).
\<close>

datatype suggestions_value = ArrayValue "suggestion list" | OtherValue string

fun is_array :: "suggestions_value \<Rightarrow> bool" where
  "is_array (ArrayValue xs) = True"
| "is_array (OtherValue v) = False"

datatype verb = GET | POST

datatype payload =
    NoBody
  | CompleteBody string string
  | AIBody AICompletionRequest

text \<open>
  The configuration of the shared axios instance. The library starts with no timeout and
  its own \<open>Accept\<close> header; lines 61 to 63 of \<open>App.tsx\<close> assign the timeout and two
  common headers.
\<close>

record axios_config =
  timeout :: nat
  headers_common :: "(string \<times> string) list"

definition set_header :: "string \<Rightarrow> string \<Rightarrow> (string \<times> string) list \<Rightarrow> (string \<times> string) list" where
  "set_header k v hs = (k, v) # filter (\<lambda>kv. fst kv \<noteq> k) hs"

definition axios_library_defaults :: axios_config where
  "axios_library_defaults =
     \<lparr>timeout = 0, headers_common = [(''Accept'', ''application/json, text/plain, */*'')]\<rparr>"

definition axios_defaults :: axios_config where
  "axios_defaults =
     (let c1 = axios_library_defaults\<lparr>timeout := 10000\<rparr>;
          c2 = c1\<lparr>headers_common := set_header ''Content-Type'' ''application/json'' (headers_common c1)\<rparr>;
          c3 = c2\<lparr>headers_common := set_header ''Accept'' ''application/json'' (headers_common c2)\<rparr>
      in c3)"

text \<open>
  One outbound request as axios sends it. No call site passes a configuration of its own,
  so the request takes the timeout and the common headers of the defaults; axios removes
  the \<open>Content-Type\<close> header from a request that has no data.
\<close>

record http_call =
  call_verb :: verb
  url :: string
  body :: payload
  call_timeout :: nat
  call_headers :: "(string \<times> string) list"

definition sent_headers :: "payload \<Rightarrow> (string \<times> string) list \<Rightarrow> (string \<times> string) list" where
  "sent_headers b hs = (if b = NoBody then filter (\<lambda>kv. fst kv \<noteq> ''Content-Type'') hs else hs)"

definition axios_get :: "string \<Rightarrow> http_call" where
  "axios_get u =
     \<lparr>call_verb = GET, url = u, body = NoBody,
      call_timeout = timeout axios_defaults,
      call_headers = sent_headers NoBody (headers_common axios_defaults)\<rparr>"

definition axios_post :: "string \<Rightarrow> payload \<Rightarrow> http_call" where
  "axios_post u b =
     \<lparr>call_verb = POST, url = u, body = b,
      call_timeout = timeout axios_defaults,
      call_headers = sent_headers b (headers_common axios_defaults)\<rparr>"

section \<open>The AI service (aiService.ts)\<close>

definition API_URL :: string where
  "API_URL = ''http://localhost:5002/api''"

text \<open>
  The backend answers a call with a rejection or with the data of a 2xx response. A
  service function takes the backend as an argument and returns, beside its result
  (\<open>Inl\<close> for a thrown exception), the list of calls it made.
\<close>

type_synonym ai_backend = "http_call \<Rightarrow> AxiosError + AICompletionResponse"

text \<open>The \<open>catch\<close> block of \<open>getCompletion\<close> (lines 40 to 69): what it throws.\<close>

definition getCompletion_catch :: "AxiosError \<Rightarrow> exn" where
  "getCompletion_catch e =
     (case err_response e of
        None \<Rightarrow> Axios e
      | Some r \<Rightarrow>
          (case data r of
             NullBody \<Rightarrow> Axios e
           | EmptyBody \<Rightarrow> Axios e
           | ObjectBody errorData \<Rightarrow>
               (case body_error errorData of
                  None \<Rightarrow> Axios e
                | Some m \<Rightarrow>
                    if m \<noteq> [] \<and> (str_includes m ''quota'' \<or> str_includes m ''billing''
                                  \<or> str_includes m ''API key'')
                    then Error (''AI API Key Error: '' @ m)
                    else if m \<noteq> [] \<and> str_includes m ''proxies''
                    then Error ''AI Configuration Error: Server proxy settings issue. Please contact administrator.''
                    else if m \<noteq> [] then Error m
                    else Axios e)))"

definition getCompletion :: "ai_backend \<Rightarrow> AICompletionRequest \<Rightarrow> (exn + AICompletionResponse) \<times> http_call list" where
  "getCompletion backend request =
     (let call = axios_post (API_URL @ ''/ai/completion'') (AIBody request)
      in (case backend call of
            Inr d \<Rightarrow> Inr d
          | Inl e \<Rightarrow> Inl (getCompletion_catch e),
          [call]))"

text \<open>
  Lines 93 and 94 (and again 122, 123 and 151, 152): the provider suffix. The template
  \<open>` (via ${provider})`\<close> is built only for a truthy provider, and the text is extended
  by two line feeds and that template only when it is non-empty.
\<close>

definition with_provider :: "AICompletionResponse \<Rightarrow> string" where
  "with_provider r =
     (let providerInfo = (if truthy (provider r) then '' (via '' @ the (provider r) @ '')'' else [])
      in response r @ (if providerInfo \<noteq> [] then [LF, LF] @ providerInfo else []))"

text \<open>
  The three entry points. Each system prompt is a template literal over three source
  lines; the second and third line keep the four blanks of their indentation, and the
  first line of two of them ends in a blank.
\<close>

definition getCodeCompletion :: "ai_backend \<Rightarrow> string \<Rightarrow> string \<Rightarrow> (exn + string) \<times> http_call list" where
  "getCodeCompletion backend src lang =
     (let systemPrompt =
            ''You are an expert '' @ lang @ '' programmer. '' @ [LF] @
            ''    Provide code completion that is concise, efficient, and follows best practices.'' @ [LF] @
            ''    Only return code without explanation.'';
          (res, calls) = getCompletion backend
             \<lparr>prompt = src, model = None, system_prompt = Some systemPrompt,
              temperature = Some (3 / 10), max_tokens = None, req_language = Some lang,
              request_type = Some completion\<rparr>
      in (case res of Inr r \<Rightarrow> Inr (with_provider r) | Inl e \<Rightarrow> Inl e, calls))"

definition generateDocumentation :: "ai_backend \<Rightarrow> string \<Rightarrow> string \<Rightarrow> (exn + string) \<times> http_call list" where
  "generateDocumentation backend src lang =
     (let systemPrompt =
            ''You are an expert at writing documentation. '' @ [LF] @
            ''    Analyze the provided '' @ lang @ '' code and generate clear, comprehensive documentation'' @ [LF] @
            ''    that explains what the code does, any parameters, return values, and important details.'';
          (res, calls) = getCompletion backend
             \<lparr>prompt = ''Generate documentation for the following '' @ lang @ '' code:'' @ [LF, LF] @ src,
              model = None, system_prompt = Some systemPrompt,
              temperature = Some (5 / 10), max_tokens = None, req_language = Some lang,
              request_type = Some documentation\<rparr>
      in (case res of Inr r \<Rightarrow> Inr (with_provider r) | Inl e \<Rightarrow> Inl e, calls))"

definition explainCode :: "ai_backend \<Rightarrow> string \<Rightarrow> string \<Rightarrow> (exn + string) \<times> http_call list" where
  "explainCode backend src lang =
     (let systemPrompt =
            ''You are a programming teacher who explains code in simple terms.'' @ [LF] @
            ''    Analyze the provided '' @ lang @ '' code and explain what it does in clear, concise language'' @ [LF] @
            ''    that a junior developer would understand. Focus on the purpose and logic, not line-by-line details.'';
          (res, calls) = getCompletion backend
             \<lparr>prompt = ''Explain this '' @ lang @ '' code in simple terms:'' @ [LF, LF] @ src,
              model = None, system_prompt = Some systemPrompt,
              temperature = Some (7 / 10), max_tokens = None, req_language = Some lang,
              request_type = Some explanation\<rparr>
      in (case res of Inr r \<Rightarrow> Inr (with_provider r) | Inl e \<Rightarrow> Inl e, calls))"

section \<open>The application state (App.tsx)\<close>

datatype ai_action = complete | document | explain | remove

text \<open>
  The ten state variables of the component \<open>App\<close> (lines 86 to 95), under their own
  names. \<open>error\<close> and \<open>aiResponse\<close> are \<open>string | null\<close>: \<open>None\<close> is \<open>null\<close>.
\<close>

record app_state =
  code :: string
  language :: string
  suggestions :: suggestions_value
  error :: "string option"
  loading :: bool
  aiResponse :: "string option"
  aiLoading :: bool
  aiAction :: "ai_action option"
  isQuotaError :: bool
  isConfigError :: bool

text \<open>
  A timer set by \<open>setTimeout\<close>: its id, the time it is due, and what its closure holds,
  the edited value and the language of the render that created the closure.
\<close>

record timer =
  timer_id :: nat
  due :: nat
  snippet :: string
  snippet_language :: string

text \<open>
  The world the component runs in extends its state by what the handlers reach through
  the browser:
  \<^item> \<open>editor_model\<close>: the text of \<open>window.monaco?.editor.getModels()[0]\<close>, \<open>None\<close> when
    Monaco is not loaded or has no model;
  \<^item> \<open>editor_selection\<close>: \<open>window.monaco?.editor.getEditors()[0]?.getSelection()\<close> as a
    pair of offsets (start, end) into the text, \<open>None\<close> when there is none;
  \<^item> \<open>clock\<close> (milliseconds), the pending \<open>timers\<close> and the next timer id;
  \<^item> \<open>http_log\<close>: every request sent so far, oldest first;
  \<^item> \<open>ai_pending\<close>: the AI actions awaiting their answer, each with the action and the
    result its service call will settle with;
  \<^item> \<open>suggest_inflight\<close>: the number of suggestion requests awaiting their answer;
  \<^item> \<open>env_backend_url\<close>: the environment variable \<open>REACT_APP_BACKEND_URL\<close>.
\<close>

record world = app_state +
  editor_model :: "string option"
  editor_selection :: "(nat \<times> nat) option"
  clock :: nat
  timers :: "timer list"
  next_timer :: nat
  http_log :: "http_call list"
  ai_pending :: "(ai_action \<times> (exn + string)) list"
  suggest_inflight :: nat
  env_backend_url :: "string option"

definition BACKEND_URL :: "world \<Rightarrow> string" where
  "BACKEND_URL w =
     (if truthy (env_backend_url w) then the (env_backend_url w) else ''http://127.0.0.1:5002'')"

text \<open>
  The data of a 2xx answer of \<open>/api/complete\<close>. \<open>NullData\<close> is the JSON value \<open>null\<close>,
  on which reading \<open>suggestions\<close> throws a \<open>TypeError\<close>. For any other data the field is
  \<open>FalsyField\<close> when it is missing or falsy (also for an empty body) and \<open>TruthyField\<close>
  with its value otherwise; an array, even the empty one, is truthy.
\<close>

datatype suggestions_field = FalsyField | TruthyField suggestions_value

datatype suggest_data = NullData | ObjectData suggestions_field

subsection \<open>The editor's text\<close>

text \<open>
  \<open>pushEditOperations\<close> with one operation replaces the text of a range;
  \<open>getValueInRange\<close> reads it. A range is a pair of offsets, start first.
\<close>

definition replace_range :: "string \<Rightarrow> nat \<times> nat \<Rightarrow> string \<Rightarrow> string" where
  "replace_range buf r t = take (fst r) buf @ t @ drop (max (fst r) (snd r)) buf"

definition getValueInRange :: "string \<Rightarrow> nat \<times> nat \<Rightarrow> string" where
  "getValueInRange buf r = take (snd r - fst r) (drop (fst r) buf)"

definition getFullModelRange :: "string \<Rightarrow> nat \<times> nat" where
  "getFullModelRange buf = (0, length buf)"

subsection \<open>Connection check and suggestions\<close>

text \<open>\<open>verifyBackendConnection\<close> (lines 76 to 83): one GET, its answer only logged.\<close>

definition verifyBackendConnection :: "world \<Rightarrow> world" where
  "verifyBackendConnection w = w\<lparr>http_log := http_log w @ [axios_get (BACKEND_URL w @ ''/'')]\<rparr>"

definition clearTimeout :: "nat \<Rightarrow> world \<Rightarrow> world" where
  "clearTimeout i w = w\<lparr>timers := filter (\<lambda>t. timer_id t \<noteq> i) (timers w)\<rparr>"

text \<open>
  \<open>handleEditorChange\<close> (lines 102 to 111). For a truthy value it sets the code, starts
  a timer of 500 ms and returns a function that would clear this timer: the result
  \<open>Some timeoutId\<close> stands for that function. For \<open>undefined\<close> or the empty string it
  does nothing and returns \<open>undefined\<close>.
\<close>

definition handleEditorChange :: "string option \<Rightarrow> world \<Rightarrow> world \<times> nat option" where
  "handleEditorChange v w =
     (if truthy v then
        (let timeoutId = next_timer w;
             t = \<lparr>timer_id = timeoutId, due = clock w + 500, snippet = the v,
                  snippet_language = language w\<rparr>
         in (w\<lparr>code := the v, timers := timers w @ [t], next_timer := timeoutId + 1\<rparr>,
             Some timeoutId))
      else (w, None))"

text \<open>
  The editor component calls its \<open>onChange\<close> property after the text has changed and
  drops what the callback returns.
\<close>

definition onChange :: "string option \<Rightarrow> world \<Rightarrow> world" where
  "onChange v w =
     fst (handleEditorChange v
            (w\<lparr>editor_model := (case v of None \<Rightarrow> editor_model w | Some s \<Rightarrow> Some s)\<rparr>))"

text \<open>
  \<open>getSuggestions\<close> (lines 113 to 146) has one \<open>await\<close>. The part before it sets the
  flags and sends the request; the part after it runs when the answer arrives.
\<close>

definition getSuggestions_send :: "string \<Rightarrow> string \<Rightarrow> world \<Rightarrow> world" where
  "getSuggestions_send codeSnippet lang w =
     w\<lparr>loading := True, error := None,
       http_log := http_log w @
          [axios_post (BACKEND_URL w @ ''/api/complete'') (CompleteBody codeSnippet lang)],
       suggest_inflight := suggest_inflight w + 1\<rparr>"

text \<open>
  The message chosen in the \<open>catch\<close> block (lines 131 to 140). Line 136 reads
  \<open>error.response.data.error\<close> without a guard, so for a \<open>null\<close> body it throws a
  \<open>TypeError\<close> (\<open>Inl\<close>) in place of a message.
\<close>

definition suggestion_error_message :: "exn \<Rightarrow> exn + string" where
  "suggestion_error_message ex =
     (case ex of
        Error m \<Rightarrow> Inr ''Failed to fetch code suggestions. Please try again.''
      | Axios e \<Rightarrow>
          if err_code e = Some ''ECONNREFUSED''
          then Inr ''Cannot connect to the backend server. Please make sure it is running.''
          else (case err_response e of
                  Some r \<Rightarrow>
                    (case data r of
                       NullBody \<Rightarrow> Inl (Error ''TypeError: Cannot read properties of null'')
                     | EmptyBody \<Rightarrow> Inr (''Server error: '' @ statusText r)
                     | ObjectBody d \<Rightarrow>
                         Inr (''Server error: '' @
                                (if truthy (body_error d) then the (body_error d) else statusText r)))
                | None \<Rightarrow>
                    if err_request e
                    then Inr ''No response from server. Please check your connection.''
                    else Inr ''Failed to fetch code suggestions. Please try again.''))"

text \<open>
  The \<open>catch\<close> block and the \<open>finally\<close> block (lines 129 to 145). When the message
  is found, the error is set and the list emptied (lines 141 and 142); when reading it
  throws, these two lines are not reached. The loading flag is cleared in both cases.
\<close>

definition getSuggestions_catch :: "exn \<Rightarrow> world \<Rightarrow> world" where
  "getSuggestions_catch ex w =
     (case suggestion_error_message ex of
        Inr errorMessage \<Rightarrow>
          w\<lparr>error := Some errorMessage, suggestions := ArrayValue [], loading := False\<rparr>
      | Inl thrown \<Rightarrow> w\<lparr>loading := False\<rparr>)"

text \<open>
  The part of \<open>getSuggestions\<close> after the \<open>await\<close> (lines 122 to 145). A truthy
  \<open>suggestions\<close> field is stored as it is (line 128).
\<close>

definition getSuggestions_settle :: "AxiosError + suggest_data \<Rightarrow> world \<Rightarrow> world" where
  "getSuggestions_settle outcome w =
     (case outcome of
        Inl e \<Rightarrow> getSuggestions_catch (Axios e) w
      | Inr NullData \<Rightarrow>
          getSuggestions_catch (Error ''TypeError: Cannot read properties of null'') w
      | Inr (ObjectData FalsyField) \<Rightarrow>
          getSuggestions_catch (Error ''Invalid response format from server'') w
      | Inr (ObjectData (TruthyField v)) \<Rightarrow> w\<lparr>suggestions := v, loading := False\<rparr>)"

text \<open>
  Time passes: the clock advances and every timer then due fires, in the order the
  timers were set. A firing timer calls \<open>getSuggestions(value)\<close>.
\<close>

definition elapse :: "nat \<Rightarrow> world \<Rightarrow> world" where
  "elapse d w =
     (let now = clock w + d;
          fired = filter (\<lambda>t. due t \<le> now) (timers w);
          kept = filter (\<lambda>t. \<not> due t \<le> now) (timers w)
      in fold (\<lambda>t. getSuggestions_send (snippet t) (snippet_language t)) fired
           (w\<lparr>clock := now, timers := kept\<rparr>))"

definition handleSuggestionClick :: "string \<Rightarrow> world \<Rightarrow> world" where
  "handleSuggestionClick c w =
     (case editor_model w of
        None \<Rightarrow> w
      | Some buf \<Rightarrow> w\<lparr>editor_model := Some (replace_range buf (getFullModelRange buf) (code w @ c))\<rparr>)"

subsection \<open>AI actions\<close>

text \<open>
  The four handlers start alike (lines 168 to 173, 196 to 201, 224 to 229, 288 to 293).
\<close>

definition ai_start :: "ai_action \<Rightarrow> world \<Rightarrow> world" where
  "ai_start a w =
     w\<lparr>aiLoading := True, aiAction := Some a, aiResponse := None, error := None,
       isQuotaError := False, isConfigError := False\<rparr>"

text \<open>
  Their \<open>catch\<close> blocks (lines 181 to 189, 209 to 217, 237 to 245) and \<open>handleAIError\<close>
  (lines 312 to 322) differ in the text before the message only.
\<close>

definition failure_prefix :: "ai_action \<Rightarrow> string" where
  "failure_prefix a =
     (case a of
        complete \<Rightarrow> ''Failed to get code completion from AI: ''
      | document \<Rightarrow> ''Failed to generate documentation with AI: ''
      | explain \<Rightarrow> ''Failed to explain code with AI: ''
      | remove \<Rightarrow> ''Failed to process with AI: '')"

definition quota_error_text :: string where
  "quota_error_text = ''AI API quota exceeded or billing issue. The API key needs to be updated or billing issues need to be resolved.''"

definition config_error_text :: string where
  "config_error_text = ''AI configuration error on the server. The administrator needs to fix proxy settings.''"

definition ai_catch :: "ai_action \<Rightarrow> exn \<Rightarrow> world \<Rightarrow> world" where
  "ai_catch a ex w =
     (let m = exn_message ex in
      if m \<noteq> [] \<and> str_includes m ''AI API Key Error''
      then w\<lparr>error := Some quota_error_text, isQuotaError := True\<rparr>
      else if m \<noteq> [] \<and> str_includes m ''Configuration Error''
      then w\<lparr>error := Some config_error_text, isConfigError := True\<rparr>
      else w\<lparr>error := Some (failure_prefix a @ (if m \<noteq> [] then m else ''Please try again later.''))\<rparr>)"

definition handleAIError :: "exn \<Rightarrow> world \<Rightarrow> world" where
  "handleAIError ex w = ai_catch remove ex w"

text \<open>
  The service call of each handler, for the answer the backend will give. Clean calls
  the service only when there is an editor model, with a prompt around the selected text
  or, without a selection, around the code.
\<close>

definition clean_prompt :: "string \<Rightarrow> string" where
  "clean_prompt selectedText =
     ''Please help me remove unnecessary code while keeping the core functionality:'' @ [LF, LF] @ selectedText"

definition ai_service_call :: "ai_action \<Rightarrow> ai_backend \<Rightarrow> world \<Rightarrow> ((exn + string) \<times> http_call list) option" where
  "ai_service_call a backend w =
     (case a of
        complete \<Rightarrow> Some (getCodeCompletion backend (code w) (language w))
      | document \<Rightarrow> Some (generateDocumentation backend (code w) (language w))
      | explain \<Rightarrow> Some (explainCode backend (code w) (language w))
      | remove \<Rightarrow>
          (case editor_model w of
             None \<Rightarrow> None
           | Some buf \<Rightarrow>
               (let selectedText = (case editor_selection w of
                                      Some sel \<Rightarrow> getValueInRange buf sel
                                    | None \<Rightarrow> code w)
                in Some (getCodeCompletion backend (clean_prompt selectedText) (language w)))))"

text \<open>
  A handler up to its \<open>await\<close>: the state is reset, the request goes out and the action
  waits. Without a service call (Clean with no editor model) the handler runs straight
  to its \<open>finally\<close> block.
\<close>

definition ai_handler_start :: "ai_action \<Rightarrow> AxiosError + AICompletionResponse \<Rightarrow> world \<Rightarrow> world" where
  "ai_handler_start a answer w =
     (let w1 = ai_start a w in
      case ai_service_call a (\<lambda>_. answer) w of
        None \<Rightarrow> w1\<lparr>aiLoading := False\<rparr>
      | Some (res, calls) \<Rightarrow>
          w1\<lparr>http_log := http_log w1 @ calls, ai_pending := ai_pending w1 @ [(a, res)]\<rparr>)"

text \<open>A handler after its \<open>await\<close>: the result is stored or the error shown.\<close>

definition ai_handler_finish :: "ai_action \<Rightarrow> exn + string \<Rightarrow> world \<Rightarrow> world" where
  "ai_handler_finish a res w =
     (let w1 = (case res of
                  Inr txt \<Rightarrow> w\<lparr>aiResponse := Some txt\<rparr>
                | Inl ex \<Rightarrow> ai_catch a ex w)
      in w1\<lparr>aiLoading := False\<rparr>)"

definition ai_settle :: "nat \<Rightarrow> world \<Rightarrow> world" where
  "ai_settle n w =
     (if n < length (ai_pending w)
      then (let (a, res) = ai_pending w ! n
            in ai_handler_finish a res
                 (w\<lparr>ai_pending := take n (ai_pending w) @ drop (Suc n) (ai_pending w)\<rparr>))
      else w)"

text \<open>
  The four action buttons share one \<open>disabled\<close> expression (lines 417, 428, 439, 450);
  a disabled button does not call its handler.
\<close>

definition disabled :: "world \<Rightarrow> bool" where
  "disabled w = (aiLoading w \<or> code w = [] \<or> isQuotaError w \<or> isConfigError w)"

definition click :: "ai_action \<Rightarrow> AxiosError + AICompletionResponse \<Rightarrow> world \<Rightarrow> world" where
  "click a answer w = (if disabled w then w else ai_handler_start a answer w)"

text \<open>The transient notification (line 611) is open under this condition.\<close>

definition snackbar_open :: "world \<Rightarrow> bool" where
  "snackbar_open w = (truthy (error w) \<and> \<not> isQuotaError w \<and> \<not> isConfigError w)"

subsection \<open>Inserting the AI response\<close>

text \<open>\<open>handleInsertAtCursor\<close> (lines 251 to 285).\<close>

definition handleInsertAtCursor :: "world \<Rightarrow> world" where
  "handleInsertAtCursor w =
     (if \<not> truthy (aiResponse w) then w
      else (case editor_model w of
              None \<Rightarrow> w
            | Some buf \<Rightarrow>
                (let r = the (aiResponse w);
                     buf' = (case editor_selection w of
                               Some sel \<Rightarrow> replace_range buf sel r
                             | None \<Rightarrow> replace_range buf (getFullModelRange buf) r)
                 in w\<lparr>editor_model := Some buf', code := r\<rparr>)))"

text \<open>\<open>handleApplyAiResponse\<close> (lines 324 to 344).\<close>

definition handleApplyAiResponse :: "world \<Rightarrow> world" where
  "handleApplyAiResponse w =
     (if \<not> truthy (aiResponse w) then w
      else (let r = the (aiResponse w); w1 = w\<lparr>code := r\<rparr>
            in case editor_model w1 of
                 None \<Rightarrow> w1
               | Some buf \<Rightarrow> w1\<lparr>editor_model := Some (replace_range buf (getFullModelRange buf) r)\<rparr>))"

text \<open>
  The response panel (lines 488 to 548) shows the two buttons "Append to Editor" and
  "Insert at Cursor" for a completion or a documentation and the button "Apply Cleaned
  Code" for a cleaning, when no action is loading and the response is truthy.
\<close>

definition apply_visible :: "world \<Rightarrow> bool" where
  "apply_visible w =
     (\<not> aiLoading w \<and> truthy (aiResponse w)
      \<and> (aiAction w = Some complete \<or> aiAction w = Some document))"

definition insert_visible :: "world \<Rightarrow> bool" where
  "insert_visible w =
     (\<not> aiLoading w \<and> truthy (aiResponse w)
      \<and> (aiAction w = Some complete \<or> aiAction w = Some document \<or> aiAction w = Some remove))"

subsection \<open>Events\<close>

text \<open>
  What can happen to the running page. \<open>Click a answer\<close> is a click on the button of
  action \<open>a\<close>, with the answer the backend will give to the request, if one is sent;
  \<open>AiSettle n\<close> delivers the answer of the \<open>n\<close>th waiting action. \<open>MonacoLoaded\<close> creates
  the editor model from the code, \<open>Select\<close> changes the selection.
\<close>

datatype event =
    Mount
  | MonacoLoaded
  | Select "(nat \<times> nat) option"
  | EditorChange "string option"
  | Elapse nat
  | SuggestSettle "AxiosError + suggest_data"
  | SuggestionClick string
  | Click ai_action "AxiosError + AICompletionResponse"
  | AiSettle nat
  | InsertAtCursor
  | ApplyAiResponse
  | SelectLanguage string
  | CloseSnackbar

fun step :: "event \<Rightarrow> world \<Rightarrow> world" where
  "step Mount w = verifyBackendConnection w"
| "step MonacoLoaded w = w\<lparr>editor_model := Some (code w)\<rparr>"
| "step (Select sel) w = w\<lparr>editor_selection := sel\<rparr>"
| "step (EditorChange v) w = onChange v w"
| "step (Elapse d) w = elapse d w"
| "step (SuggestSettle outcome) w =
     (if suggest_inflight w = 0 then w
      else getSuggestions_settle outcome (w\<lparr>suggest_inflight := suggest_inflight w - 1\<rparr>))"
| "step (SuggestionClick c) w = handleSuggestionClick c w"
| "step (Click a answer) w = click a answer w"
| "step (AiSettle n) w = ai_settle n w"
| "step InsertAtCursor w = (if insert_visible w then handleInsertAtCursor w else w)"
| "step ApplyAiResponse w = (if apply_visible w then handleApplyAiResponse w else w)"
| "step (SelectLanguage l) w = w\<lparr>language := l\<rparr>"
| "step CloseSnackbar w = w\<lparr>error := None\<rparr>"

fun run :: "event list \<Rightarrow> world \<Rightarrow> world" where
  "run [] w = w"
| "run (e # es) w = run es (step e w)"

definition initial_world :: "string option \<Rightarrow> world" where
  "initial_world env =
     \<lparr>code = ''# Start typing your code here...'', language = ''python'',
      suggestions = ArrayValue [],
      error = None, loading = False, aiResponse = None, aiLoading = False, aiAction = None,
      isQuotaError = False, isConfigError = False,
      editor_model = None, editor_selection = None, clock = 0, timers = [], next_timer = 1,
      http_log = [], ai_pending = [], suggest_inflight = 0, env_backend_url = env\<rparr>"

text \<open>The requests to the AI endpoint among those sent.\<close>

definition is_ai_call :: "http_call \<Rightarrow> bool" where
  "is_ai_call c = (case body c of AIBody _ \<Rightarrow> True | _ \<Rightarrow> False)"

definition ai_calls :: "world \<Rightarrow> http_call list" where
  "ai_calls w = filter is_ai_call (http_log w)"

subsection \<open>Classification of a failed AI request\<close>

datatype classification = QuotaOrKeyError | ConfigurationError | GenericError string

text \<open>
  The classification the page shows, read from the two flags and the error text the
  handlers set.
\<close>

definition shown_classification :: "world \<Rightarrow> classification" where
  "shown_classification w =
     (if isQuotaError w then QuotaOrKeyError
      else if isConfigError w then ConfigurationError
      else GenericError (case error w of None \<Rightarrow> [] | Some m \<Rightarrow> m))"

text \<open>
  The piecewise function of the specification, in its words: the quota substrings
  first, then \<open>proxies\<close>, then the generic class with the message itself.
\<close>

definition spec_classification :: "string \<Rightarrow> classification" where
  "spec_classification m =
     (if str_includes m ''quota'' \<or> str_includes m ''billing'' \<or> str_includes m ''API key''
      then QuotaOrKeyError
      else if str_includes m ''proxies'' then ConfigurationError
      else GenericError m)"

subsection \<open>Sample answers and states\<close>

text \<open>A rejection as axios raises it for a failure status whose body is \<open>{error: m}\<close>.\<close>

definition server_rejection :: "nat \<Rightarrow> string \<Rightarrow> AxiosError" where
  "server_rejection st m =
     \<lparr>message = ''Request failed with status code'', err_code = Some ''ERR_BAD_RESPONSE'',
      err_response = Some \<lparr>status = st, statusText = [],
         data = ObjectBody \<lparr>body_error = Some m, body_detail = None\<rparr>\<rparr>,
      err_request = True\<rparr>"

text \<open>A rejection without a response: the request went out and nothing came back.\<close>

definition network_rejection :: AxiosError where
  "network_rejection =
     \<lparr>message = ''Network Error'', err_code = Some ''ERR_NETWORK'', err_response = None,
      err_request = True\<rparr>"

definition plain_answer :: "string \<Rightarrow> AICompletionResponse" where
  "plain_answer txt = \<lparr>response = txt, resp_model = ''m'', timestamp = ''t'', provider = None\<rparr>"

text \<open>The state after the first action of a fresh page failed on the quota.\<close>

definition quota_world :: world where
  "quota_world =
     run [Click complete (Inl (server_rejection 429 ''You exceeded your current quota, check billing'')),
          AiSettle 0]
       (initial_world None)"

text \<open>
  What lines 61 to 63 give a request as it is sent: the timeout of 10000 ms, the header
  \<open>Accept\<close>, and the header \<open>Content-Type\<close> on a request with a body and no such header
  on a request without one.
\<close>

definition sent_ok :: "http_call \<Rightarrow> bool" where
  "sent_ok c =
     (call_timeout c = 10000
      \<and> map_of (call_headers c) ''Accept'' = Some ''application/json''
      \<and> map_of (call_headers c) ''Content-Type'' =
            (if body c = NoBody then None else Some ''application/json''))"

text \<open>A rejection with a failure status whose body is the JSON value \<open>null\<close>.\<close>

definition null_body_rejection :: AxiosError where
  "null_body_rejection =
     \<lparr>message = ''Request failed with status code 500'', err_code = Some ''ERR_BAD_RESPONSE'',
      err_response = Some \<lparr>status = 500, statusText = ''Internal Server Error'', data = NullBody\<rparr>,
      err_request = True\<rparr>"

text \<open>
  The events that cannot put a value other than an array into the list of suggestions:
  all but the arrival of a suggestion answer whose truthy \<open>suggestions\<close> is no array.
\<close>

fun array_answer :: "event \<Rightarrow> bool" where
  "array_answer (SuggestSettle (Inr (ObjectData (TruthyField (OtherValue v))))) = False"
| "array_answer e = True"

text \<open>
  A page where a completion \<open>X\<close> has arrived for the code \<open>abcdef\<close> and the user has
  selected \<open>cd\<close>.
\<close>

definition insert_trace :: "event list" where
  "insert_trace =
     [MonacoLoaded, EditorChange (Some ''abcdef''), Click complete (Inr (plain_answer ''X'')),
      AiSettle 0, Select (Some (2, 4))]"

text \<open>
  A burst of edits: each edit comes after a gap (in milliseconds) since the event before.
\<close>

fun burst :: "(nat \<times> string) list \<Rightarrow> event list" where
  "burst [] = []"
| "burst ((gap, v) # es) = Elapse gap # EditorChange (Some v) # burst es"

text \<open>The suggestion request \<open>getSuggestions\<close> sends for a snippet and a language.\<close>

definition suggestion_call :: "world \<Rightarrow> string \<times> string \<Rightarrow> http_call" where
  "suggestion_call w sl =
     axios_post (BACKEND_URL w @ ''/api/complete'') (CompleteBody (fst sl) (snd sl))"

text \<open>What the pending timers will ask for: snippet and language, oldest first.\<close>

definition pending :: "world \<Rightarrow> (string \<times> string) list" where
  "pending w = map (\<lambda>t. (snippet t, snippet_language t)) (timers w)"

section \<open>Properties\<close>

subsection \<open>Auxiliary facts\<close>

lemma str_includes_iff: "str_includes s sub \<longleftrightarrow> (\<exists>ps ss. s = ps @ sub @ ss)"
proof (induction s)
  case Nil
  then show ?case by auto
next
  case (Cons c cs)
  show ?case
  proof
    assume "str_includes (c # cs) sub"
    then consider "prefix sub (c # cs)" | "str_includes cs sub" by auto
    then show "\<exists>ps ss. c # cs = ps @ sub @ ss"
    proof cases
      case 1
      then obtain ss where "c # cs = sub @ ss" by (auto simp: prefix_def)
      then have "c # cs = [] @ sub @ ss" by simp
      then show ?thesis by blast
    next
      case 2
      with Cons.IH obtain ps ss where "cs = ps @ sub @ ss" by blast
      then have "c # cs = (c # ps) @ sub @ ss" by simp
      then show ?thesis by blast
    qed
  next
    assume "\<exists>ps ss. c # cs = ps @ sub @ ss"
    then obtain ps ss where eq: "c # cs = ps @ sub @ ss" by blast
    show "str_includes (c # cs) sub"
    proof (cases ps)
      case Nil
      with eq have "prefix sub (c # cs)" by (simp add: prefix_def)
      then show ?thesis by simp
    next
      case (Cons p ps')
      with eq have "cs = ps' @ sub @ ss" by simp
      with Cons.IH have "str_includes cs sub" by blast
      then show ?thesis by simp
    qed
  qed
qed

lemma str_includes_mid: "str_includes (a @ s @ b) s"
  unfolding str_includes_iff by blast

lemma fold_send_flags:
  "isQuotaError (fold (\<lambda>t. getSuggestions_send (snippet t) (snippet_language t)) ts w) = isQuotaError w
   \<and> isConfigError (fold (\<lambda>t. getSuggestions_send (snippet t) (snippet_language t)) ts w) = isConfigError w
   \<and> ai_calls (fold (\<lambda>t. getSuggestions_send (snippet t) (snippet_language t)) ts w) = ai_calls w"
  by (induction ts arbitrary: w)
     (simp_all add: getSuggestions_send_def ai_calls_def is_ai_call_def axios_post_def)

lemma elapse_flags:
  "isQuotaError (elapse d w) = isQuotaError w \<and> isConfigError (elapse d w) = isConfigError w
   \<and> ai_calls (elapse d w) = ai_calls w"
proof -
  have "ai_calls (w\<lparr>clock := c, timers := ts\<rparr>) = ai_calls w" for c ts
    by (simp add: ai_calls_def)
  then show ?thesis by (simp add: elapse_def Let_def fold_send_flags)
qed

lemma ai_catch_flags:
  "(isQuotaError w \<longrightarrow> isQuotaError (ai_catch a ex w))
   \<and> (isConfigError w \<longrightarrow> isConfigError (ai_catch a ex w))
   \<and> ai_calls (ai_catch a ex w) = ai_calls w"
  by (simp add: ai_catch_def Let_def ai_calls_def)

lemma ai_settle_flags:
  "(isQuotaError w \<longrightarrow> isQuotaError (ai_settle n w))
   \<and> (isConfigError w \<longrightarrow> isConfigError (ai_settle n w))
   \<and> ai_calls (ai_settle n w) = ai_calls w"
  using ai_catch_flags
  by (auto simp: ai_settle_def ai_handler_finish_def Let_def ai_calls_def ai_catch_def split: prod.splits sum.splits)

lemma suggest_settle_flags:
  "isQuotaError (getSuggestions_settle outcome w) = isQuotaError w
   \<and> isConfigError (getSuggestions_settle outcome w) = isConfigError w
   \<and> ai_calls (getSuggestions_settle outcome w) = ai_calls w"
  by (simp add: getSuggestions_settle_def getSuggestions_catch_def ai_calls_def
      split: sum.splits suggest_data.splits suggestions_field.splits)

lemma click_blocked: "isQuotaError w \<or> isConfigError w \<Longrightarrow> click a answer w = w"
  by (auto simp: click_def disabled_def)

lemma step_flags:
  assumes "isQuotaError w \<or> isConfigError w"
  shows "(isQuotaError w \<longrightarrow> isQuotaError (step e w))
   \<and> (isConfigError w \<longrightarrow> isConfigError (step e w))
   \<and> ai_calls (step e w) = ai_calls w"
proof (cases e)
  case (Click a answer)
  then show ?thesis using click_blocked [OF assms] by simp
next
  case (AiSettle n)
  then show ?thesis using ai_settle_flags by simp
next
  case (Elapse d)
  then show ?thesis using elapse_flags by simp
next
  case (SuggestSettle outcome)
  then show ?thesis using suggest_settle_flags [of outcome "w\<lparr>suggest_inflight := suggest_inflight w - 1\<rparr>"]
    by (simp add: ai_calls_def)
qed (auto simp: verifyBackendConnection_def ai_calls_def is_ai_call_def axios_get_def onChange_def
      handleEditorChange_def Let_def handleSuggestionClick_def handleInsertAtCursor_def
      handleApplyAiResponse_def split: option.splits)

lemma run_flags:
  "isQuotaError w \<or> isConfigError w \<Longrightarrow>
   (isQuotaError w \<longrightarrow> isQuotaError (run es w))
   \<and> (isConfigError w \<longrightarrow> isConfigError (run es w))
   \<and> ai_calls (run es w) = ai_calls w"
proof (induction es arbitrary: w)
  case Nil
  then show ?case by simp
next
  case (Cons e es)
  from step_flags [OF Cons.prems, of e]
  have s: "(isQuotaError w \<longrightarrow> isQuotaError (step e w))"
    "(isConfigError w \<longrightarrow> isConfigError (step e w))"
    "ai_calls (step e w) = ai_calls w" by auto
  with Cons.prems have "isQuotaError (step e w) \<or> isConfigError (step e w)" by auto
  from Cons.IH [OF this] s show ?case by auto
qed

lemma quota_world_eval:
  "quota_world =
     (initial_world None)\<lparr>aiAction := Some complete, error := Some quota_error_text, isQuotaError := True,
        http_log := snd (getCodeCompletion (\<lambda>_. Inl (server_rejection 429 ''You exceeded your current quota, check billing''))
            ''# Start typing your code here...'' ''python'')\<rparr>"
  by (simp add: quota_world_def initial_world_def click_def disabled_def ai_handler_start_def ai_start_def
      ai_service_call_def getCodeCompletion_def getCompletion_def getCompletion_catch_def
      server_rejection_def ai_settle_def ai_handler_finish_def ai_catch_def Let_def)

lemma suggestion_error_message_nonempty: "suggestion_error_message ex = Inr msg \<Longrightarrow> msg \<noteq> []"
  by (auto simp: suggestion_error_message_def
      split: exn.splits option.splits response_body.splits if_splits)

lemma suggestion_error_message_found:
  assumes "err_code e = Some ''ECONNREFUSED'' \<or> (\<forall>r. err_response e = Some r \<longrightarrow> data r \<noteq> NullBody)"
  shows "\<exists>msg. suggestion_error_message (Axios e) = Inr msg"
  using assms
  by (auto simp: suggestion_error_message_def split: option.splits response_body.splits)

lemma getCompletion_calls:
  "snd (getCompletion backend req) = [axios_post (API_URL @ ''/ai/completion'') (AIBody req)]"
  by (simp add: getCompletion_def Let_def)

lemma getCompletion_failed:
  "fst (getCompletion (\<lambda>_. Inl e) req) = Inl (getCompletion_catch e)"
  by (simp add: getCompletion_def Let_def)

lemma sent_ok_eq:
  "sent_ok = (\<lambda>c. call_timeout c = 10000
                  \<and> map_of (call_headers c) ''Accept'' = Some ''application/json''
                  \<and> map_of (call_headers c) ''Content-Type'' =
                        (if body c = NoBody then None else Some ''application/json''))"
  by (rule ext) (simp add: sent_ok_def)

lemma axios_post_sent_ok: "sent_ok (axios_post u b)"
  by (simp add: sent_ok_def axios_post_def axios_defaults_def axios_library_defaults_def
      set_header_def sent_headers_def Let_def)

lemma axios_get_sent_ok: "sent_ok (axios_get u)"
  by (simp add: sent_ok_def axios_get_def axios_defaults_def axios_library_defaults_def
      set_header_def sent_headers_def Let_def)

lemma service_calls:
  "ai_service_call a backend w = Some (res, calls) \<Longrightarrow>
   \<exists>req. calls = [axios_post (API_URL @ ''/ai/completion'') (AIBody req)]"
  by (cases a)
     (auto simp: ai_service_call_def getCodeCompletion_def generateDocumentation_def
        explainCode_def getCompletion_def Let_def split: option.splits prod.splits)

lemma service_none:
  "ai_service_call a backend w = None \<longleftrightarrow> (a = remove \<and> editor_model w = None)"
  by (cases a) (auto simp: ai_service_call_def split: option.splits)

lemma click_log:
  "length (http_log (click a answer w)) =
     length (http_log w) + (if disabled w \<or> (a = remove \<and> editor_model w = None) then 0 else 1)"
proof (cases "ai_service_call a (\<lambda>_. answer) w")
  case None
  then have "a = remove \<and> editor_model w = None" by (simp add: service_none)
  with None show ?thesis by (simp add: click_def ai_handler_start_def ai_start_def Let_def)
next
  case (Some rc)
  obtain res calls where rc: "rc = (res, calls)" by (cases rc)
  with Some service_calls obtain req where
    c: "calls = [axios_post (API_URL @ ''/ai/completion'') (AIBody req)]" by blast
  from Some have "\<not> (a = remove \<and> editor_model w = None)" using service_none [of a "\<lambda>_. answer" w] by simp
  with Some rc c show ?thesis by (auto simp: click_def ai_handler_start_def ai_start_def Let_def)
qed

lemma click_sent_ok:
  "list_all sent_ok (http_log w) \<Longrightarrow> list_all sent_ok (http_log (click a answer w))"
proof (cases "ai_service_call a (\<lambda>_. answer) w")
  case None
  assume "list_all sent_ok (http_log w)"
  with None show ?thesis by (simp add: click_def ai_handler_start_def ai_start_def Let_def)
next
  case (Some rc)
  assume l: "list_all sent_ok (http_log w)"
  obtain res calls where rc: "rc = (res, calls)" by (cases rc)
  with Some service_calls obtain req where
    c: "calls = [axios_post (API_URL @ ''/ai/completion'') (AIBody req)]" by blast
  with Some rc l show ?thesis
    by (simp add: click_def ai_handler_start_def ai_start_def Let_def axios_post_sent_ok)
qed

lemma ai_settle_log: "http_log (ai_settle n w) = http_log w"
  by (simp add: ai_settle_def ai_handler_finish_def ai_catch_def Let_def split: prod.splits sum.splits)

lemma suggest_settle_log: "http_log (getSuggestions_settle outcome w) = http_log w"
  by (simp add: getSuggestions_settle_def getSuggestions_catch_def
      split: sum.splits suggest_data.splits suggestions_field.splits)

lemma fold_send_sent_ok:
  "list_all sent_ok (http_log w) \<Longrightarrow>
   list_all sent_ok (http_log (fold (\<lambda>t. getSuggestions_send (snippet t) (snippet_language t)) ts w))"
  by (induction ts arbitrary: w) (simp_all add: getSuggestions_send_def axios_post_sent_ok)

lemma step_sent_ok:
  assumes "list_all sent_ok (http_log w)"
  shows "list_all sent_ok (http_log (step e w))"
proof (cases e)
  case (Click a answer)
  then show ?thesis using click_sent_ok [OF assms] by simp
next
  case (AiSettle n)
  then show ?thesis using assms by (simp add: ai_settle_log)
next
  case (Elapse d)
  then show ?thesis using assms by (simp add: elapse_def Let_def fold_send_sent_ok)
qed (use assms in \<open>auto simp: verifyBackendConnection_def axios_get_sent_ok onChange_def
      handleEditorChange_def Let_def handleSuggestionClick_def handleInsertAtCursor_def
      handleApplyAiResponse_def getSuggestions_settle_def getSuggestions_catch_def
      split: option.splits sum.splits suggest_data.splits suggestions_field.splits\<close>)

lemma run_sent_ok:
  "list_all sent_ok (http_log w) \<Longrightarrow> list_all sent_ok (http_log (run es w))"
  by (induction es arbitrary: w) (simp_all add: step_sent_ok)

lemma service_failed:
  "ai_service_call a (\<lambda>_. Inl e) w = Some (res, calls) \<Longrightarrow> res = Inl (getCompletion_catch e)"
  by (cases a)
     (auto simp: ai_service_call_def getCodeCompletion_def generateDocumentation_def
        explainCode_def getCompletion_def Let_def split: option.splits prod.splits)

lemma failed_action_state:
  assumes "\<not> disabled w" and "a = remove \<longrightarrow> editor_model w \<noteq> None"
  shows "\<exists>w1. ai_settle (length (ai_pending w)) (click a (Inl e) w) =
           (ai_catch a (getCompletion_catch e) w1)\<lparr>aiLoading := False\<rparr>
         \<and> \<not> isQuotaError w1 \<and> \<not> isConfigError w1"
proof -
  from assms(2) have "ai_service_call a (\<lambda>_. Inl e) w \<noteq> None"
    using service_none [of a "\<lambda>_. Inl e" w] by auto
  then obtain res calls where sc: "ai_service_call a (\<lambda>_. Inl e) w = Some (res, calls)" by auto
  then have res: "res = Inl (getCompletion_catch e)" by (rule service_failed)
  define w1 where "w1 = (ai_start a w)\<lparr>http_log := http_log w @ calls, ai_pending := ai_pending w\<rparr>"
  have c: "click a (Inl e) w =
      (ai_start a w)\<lparr>http_log := http_log w @ calls, ai_pending := ai_pending w @ [(a, res)]\<rparr>"
    using assms(1) sc by (simp add: click_def ai_handler_start_def Let_def ai_start_def)
  have "ai_settle (length (ai_pending w)) (click a (Inl e) w) =
          (ai_catch a (getCompletion_catch e) w1)\<lparr>aiLoading := False\<rparr>"
    unfolding c by (simp add: ai_settle_def ai_handler_finish_def res w1_def Let_def)
  moreover have "\<not> isQuotaError w1 \<and> \<not> isConfigError w1" by (simp add: w1_def ai_start_def)
  ultimately show ?thesis by blast
qed

lemma key_error_tagged: "str_includes (''AI API Key Error: '' @ m) ''AI API Key Error''"
  using str_includes_mid [of "[]" "''AI API Key Error''" "'': '' @ m"] by simp

lemma config_error_tagged:
  "\<not> str_includes ''AI Configuration Error: Server proxy settings issue. Please contact administrator.'' ''AI API Key Error''
   \<and> str_includes ''AI Configuration Error: Server proxy settings issue. Please contact administrator.'' ''Configuration Error''"
  by simp

lemma insert_without_selection_replaces_all:
  assumes "truthy (aiResponse w)" and "editor_model w = Some buf" and "editor_selection w = None"
  shows "editor_model (handleInsertAtCursor w) = Some (the (aiResponse w))
     \<and> code (handleInsertAtCursor w) = the (aiResponse w)"
  using assms
  by (simp add: handleInsertAtCursor_def replace_range_def getFullModelRange_def Let_def)

lemma insert_trace_eval:
  "aiResponse (run insert_trace (initial_world None)) = Some ''X''
   \<and> editor_model (run insert_trace (initial_world None)) = Some ''abcdef''
   \<and> code (run insert_trace (initial_world None)) = ''abcdef''
   \<and> editor_selection (run insert_trace (initial_world None)) = Some (2, 4)
   \<and> insert_visible (run insert_trace (initial_world None))"
  by (simp add: insert_trace_def initial_world_def onChange_def handleEditorChange_def truthy_def
      click_def disabled_def ai_handler_start_def ai_start_def ai_service_call_def
      getCodeCompletion_def getCompletion_def with_provider_def plain_answer_def ai_settle_def
      ai_handler_finish_def insert_visible_def Let_def)

lemma fold_send_log:
  "http_log (fold (\<lambda>t. getSuggestions_send (snippet t) (snippet_language t)) ts w) =
     http_log w @ map (\<lambda>t. suggestion_call w (snippet t, snippet_language t)) ts"
proof (induction ts arbitrary: w)
  case Nil
  then show ?case by simp
next
  case (Cons t ts)
  have "suggestion_call (getSuggestions_send a b w) = suggestion_call w" for a b
    by (rule ext) (simp add: suggestion_call_def getSuggestions_send_def BACKEND_URL_def)
  then show ?case
    by (simp add: Cons.IH) (simp add: getSuggestions_send_def suggestion_call_def)
qed

lemma elapse_all_due:
  assumes "\<forall>t \<in> set (timers w). due t \<le> clock w + d"
  shows "http_log (elapse d w) = http_log w @ map (suggestion_call w) (pending w)"
proof -
  from assms have f: "filter (\<lambda>t. due t \<le> clock w + d) (timers w) = timers w" by simp
  have "suggestion_call (w\<lparr>clock := c, timers := ts\<rparr>) = suggestion_call w" for c ts
    by (rule ext) (simp add: suggestion_call_def BACKEND_URL_def)
  then show ?thesis
    by (simp add: elapse_def Let_def f fold_send_log pending_def comp_def)
qed

lemma elapse_none_due:
  assumes "\<forall>t \<in> set (timers w). clock w + d < due t"
  shows "elapse d w = w\<lparr>clock := clock w + d\<rparr>"
proof -
  from assms have f: "filter (\<lambda>t. due t \<le> clock w + d) (timers w) = []"
    by (auto simp: filter_empty_conv)
  from assms have g: "filter (\<lambda>t. \<not> due t \<le> clock w + d) (timers w) = timers w"
    by (auto simp: filter_id_conv)
  show ?thesis by (simp add: elapse_def Let_def f g)
qed

lemma burst_keeps_timers:
  assumes "\<forall>t \<in> set (timers w). clock w + sum_list (map fst es) < due t \<and> due t \<le> clock w + 500"
    and "\<forall>v \<in> set (map snd es). v \<noteq> []"
    and "sum_list (map fst es) < 500"
  shows "http_log (run (burst es) w) = http_log w
     \<and> pending (run (burst es) w) = pending w @ map (\<lambda>gv. (snd gv, language w)) es
     \<and> suggestion_call (run (burst es) w) = suggestion_call w
     \<and> (\<forall>t \<in> set (timers (run (burst es) w)). due t \<le> clock (run (burst es) w) + 500)"
  using assms
proof (induction es arbitrary: w)
  case Nil
  then show ?case by simp
next
  case (Cons gv es)
  obtain gap v where gv: "gv = (gap, v)" by (cases gv)
  define w1 where "w1 = elapse gap w"
  define w2 where "w2 = onChange (Some v) w1"
  from Cons.prems(1) gv have "\<forall>t \<in> set (timers w). clock w + gap < due t" by auto
  then have w1: "w1 = w\<lparr>clock := clock w + gap\<rparr>" unfolding w1_def by (rule elapse_none_due)
  from Cons.prems(2) gv have v: "v \<noteq> []" by simp
  have w2: "w2 = w\<lparr>clock := clock w + gap, editor_model := Some v, code := v,
       timers := timers w @ [\<lparr>timer_id = next_timer w, due = clock w + gap + 500, snippet = v,
                               snippet_language = language w\<rparr>],
       next_timer := next_timer w + 1\<rparr>"
    using v by (simp add: w2_def w1 onChange_def handleEditorChange_def truthy_def Let_def)
  have p1: "\<forall>t \<in> set (timers w2). clock w2 + sum_list (map fst es) < due t \<and> due t \<le> clock w2 + 500"
    using Cons.prems(1,3) gv by (auto simp: w2)
  have p2: "\<forall>v \<in> set (map snd es). v \<noteq> []" using Cons.prems(2) by simp
  have p3: "sum_list (map fst es) < 500" using Cons.prems(3) by simp
  have r: "run (burst (gv # es)) w = run (burst es) w2" by (simp add: gv w2_def w1_def)
  have sc: "suggestion_call w2 = suggestion_call w"
    by (rule ext) (simp add: w2 suggestion_call_def BACKEND_URL_def)
  from Cons.IH [OF p1 p2 p3] show ?case
    unfolding r sc by (simp add: w2 pending_def gv)
qed

lemma fold_send_suggestions:
  "suggestions (fold (\<lambda>t. getSuggestions_send (snippet t) (snippet_language t)) ts w) = suggestions w"
  by (induction ts arbitrary: w) (simp_all add: getSuggestions_send_def)

lemma settle_keeps_array:
  assumes "array_answer (SuggestSettle outcome)" and "is_array (suggestions w)"
  shows "is_array (suggestions (getSuggestions_settle outcome w))"
proof (cases outcome)
  case (Inl e)
  then show ?thesis using assms(2)
    by (simp add: getSuggestions_settle_def getSuggestions_catch_def split: sum.splits)
next
  case (Inr d)
  show ?thesis
  proof (cases d)
    case NullData
    with Inr show ?thesis using assms(2)
      by (simp add: getSuggestions_settle_def getSuggestions_catch_def split: sum.splits)
  next
    case (ObjectData f)
    show ?thesis
    proof (cases f)
      case FalsyField
      with Inr ObjectData show ?thesis using assms(2)
        by (simp add: getSuggestions_settle_def getSuggestions_catch_def split: sum.splits)
    next
      case (TruthyField v)
      with Inr ObjectData assms(1) have "is_array v" by (cases v) simp_all
      with Inr ObjectData TruthyField show ?thesis by (simp add: getSuggestions_settle_def)
    qed
  qed
qed

lemma step_keeps_array:
  assumes "array_answer e" and "is_array (suggestions w)"
  shows "is_array (suggestions (step e w))"
proof (cases e)
  case (SuggestSettle outcome)
  with assms settle_keeps_array [of outcome "w\<lparr>suggest_inflight := suggest_inflight w - 1\<rparr>"]
  show ?thesis by simp
next
  case (Elapse d)
  then show ?thesis using assms(2) by (simp add: elapse_def Let_def fold_send_suggestions)
next
  case (Click a answer)
  then show ?thesis using assms(2)
    by (simp add: click_def ai_handler_start_def ai_start_def Let_def split: option.splits prod.splits)
next
  case (AiSettle n)
  then show ?thesis using assms(2)
    by (simp add: ai_settle_def ai_handler_finish_def ai_catch_def Let_def
        split: prod.splits sum.splits)
qed (use assms(2) in \<open>auto simp: verifyBackendConnection_def onChange_def handleEditorChange_def
      Let_def handleSuggestionClick_def handleInsertAtCursor_def handleApplyAiResponse_def
      split: option.splits\<close>)

lemma run_keeps_array:
  "list_all array_answer es \<Longrightarrow> is_array (suggestions w) \<Longrightarrow> is_array (suggestions (run es w))"
  by (induction es arbitrary: w) (simp_all add: step_keeps_array)

subsection \<open>C1: the debounce of suggestion requests\<close>

text \<open>
  Claim C1 asks that a burst of edits within 500 ms of each other sends exactly one
  suggestion request, carrying the value of the last edit, because each edit cancels the
  pending timer. The comment of line 105 announces this debounce, and
  \<open>handleEditorChange\<close> returns the function that would clear its timer; but the editor
  component drops what its callback returns, so no timer is ever cleared.

  The theorem states what the code does. Take any burst of edits with non-empty values
  whose gaps sum to less than 500 ms, starting with no timer pending. Once the 500 ms
  after the burst have passed, the requests sent are one for every edit of the burst, in
  the order of the edits, each with the value of its own edit.
\<close>

theorem burst_sends_every_edit:
  assumes "timers w = []"
    and "\<forall>v \<in> set (map snd es). v \<noteq> []"
    and "sum_list (map fst es) < 500"
  shows "http_log (run (burst es @ [Elapse 500]) w) =
     http_log w @ map (\<lambda>gv. suggestion_call w (snd gv, language w)) es"
proof -
  have run_app: "run (xs @ ys) s = run ys (run xs s)" for xs ys s
    by (induction xs arbitrary: s) simp_all
  from assms(1) have p: "\<forall>t \<in> set (timers w). clock w + sum_list (map fst es) < due t \<and> due t \<le> clock w + 500"
    by simp
  from assms(1) have pw: "pending w = []" by (simp add: pending_def)
  note b = burst_keeps_timers [OF p assms(2,3)]
  from b have d: "\<forall>t \<in> set (timers (run (burst es) w)). due t \<le> clock (run (burst es) w) + 500" by blast
  show ?thesis
    using b by (simp add: run_app elapse_all_due [OF d] pw comp_def)
qed

text \<open>
  Two edits, \<open>a\<close> and then \<open>ab\<close> 100 ms later, on a fresh page: two requests leave, the
  first with the stale value \<open>a\<close>.
\<close>

theorem burst_sends_every_edit_witness:
  "http_log (run [Elapse 0, EditorChange (Some ''a''), Elapse 100, EditorChange (Some ''ab''), Elapse 500]
                 (initial_world None)) =
     [axios_post ''http://127.0.0.1:5002/api/complete'' (CompleteBody ''a'' ''python''),
      axios_post ''http://127.0.0.1:5002/api/complete'' (CompleteBody ''ab'' ''python'')]"
proof -
  have t: "timers (initial_world None) = []" by (simp add: initial_world_def)
  have v: "\<forall>v \<in> set (map snd [(0, ''a''), (100, ''ab'')]). v \<noteq> []" by simp
  have s: "sum_list (map fst [(0::nat, ''a''), (100, ''ab'')]) < 500" by simp
  from burst_sends_every_edit [OF t v s]
  show ?thesis
    by (simp add: suggestion_call_def BACKEND_URL_def truthy_def initial_world_def)
qed

subsection \<open>C2: the classification of a failed AI request\<close>

text \<open>
  Claim C2, as amended. An AI action is triggered on an enabled page and the backend
  rejects the request with a body whose \<open>error\<close> message \<open>m\<close> is non-empty. When the
  answer has arrived the page shows:
  \<^item> the quota or key error, if \<open>m\<close> contains \<open>quota\<close>, \<open>billing\<close> or \<open>API key\<close>;
  \<^item> otherwise the configuration error, if \<open>m\<close> contains \<open>proxies\<close>;
  \<^item> otherwise the quota or key error, if \<open>m\<close> contains \<open>AI API Key Error\<close>, and the
    configuration error, if \<open>m\<close> contains \<open>Configuration Error\<close>: the handlers recognise
    the service's classes by these texts, which a message can hold by itself;
  \<^item> otherwise a generic error whose text is the action's own prefix followed by \<open>m\<close>,
    character for character.
  The service alone follows the function of the claim: the message of the error it throws
  is \<open>m\<close> behind the key-error tag in the first case, the fixed configuration text in the
  second and \<open>m\<close> itself in every other case.
\<close>

theorem failed_request_classification:
  assumes "\<not> disabled w" and "a = remove \<longrightarrow> editor_model w \<noteq> None"
    and "err_response e = Some r" and "data r = ObjectBody d" and "body_error d = Some m" and "m \<noteq> []"
  shows "shown_classification (ai_settle (length (ai_pending w)) (click a (Inl e) w)) =
     (if str_includes m ''quota'' \<or> str_includes m ''billing'' \<or> str_includes m ''API key''
      then QuotaOrKeyError
      else if str_includes m ''proxies'' then ConfigurationError
      else if str_includes m ''AI API Key Error'' then QuotaOrKeyError
      else if str_includes m ''Configuration Error'' then ConfigurationError
      else GenericError (failure_prefix a @ m))
   \<and> exn_message (getCompletion_catch e) =
     (if str_includes m ''quota'' \<or> str_includes m ''billing'' \<or> str_includes m ''API key''
      then ''AI API Key Error: '' @ m
      else if str_includes m ''proxies''
      then ''AI Configuration Error: Server proxy settings issue. Please contact administrator.''
      else m)"
proof -
  from failed_action_state [OF assms(1,2), of e] obtain w1 where
    s: "ai_settle (length (ai_pending w)) (click a (Inl e) w) =
           (ai_catch a (getCompletion_catch e) w1)\<lparr>aiLoading := False\<rparr>"
    and f: "\<not> isQuotaError w1" "\<not> isConfigError w1" by blast
  show ?thesis
    unfolding s using f assms(3-6) key_error_tagged [of m] config_error_tagged
    by (simp add: shown_classification_def ai_catch_def getCompletion_catch_def Let_def)
qed

text \<open>The three classes, each reached from a fresh page.\<close>

theorem failed_request_classification_witness:
  "shown_classification (ai_settle 0 (click complete
       (Inl (server_rejection 429 ''You exceeded your current quota, check billing''))
       (initial_world None))) = QuotaOrKeyError
   \<and> shown_classification (ai_settle 0 (click document
       (Inl (server_rejection 500 ''proxies argument not supported''))
       (initial_world None))) = ConfigurationError
   \<and> shown_classification (ai_settle 0 (click explain
       (Inl (server_rejection 503 ''model overloaded''))
       (initial_world None))) = GenericError ''Failed to explain code with AI: model overloaded''"
proof -
  have en: "\<not> disabled (initial_world None)" by (simp add: initial_world_def disabled_def)
  have ed: "a = remove \<longrightarrow> editor_model (initial_world None) \<noteq> None" if "a \<noteq> remove" for a
    using that by simp
  have p: "length (ai_pending (initial_world None)) = 0" by (simp add: initial_world_def)
  have r: "err_response (server_rejection st m)
             = Some \<lparr>status = st, statusText = [], data = ObjectBody \<lparr>body_error = Some m, body_detail = None\<rparr>\<rparr>"
    for st m by (simp add: server_rejection_def)
  have d: "data \<lparr>status = st, statusText = [], data = ObjectBody \<lparr>body_error = Some m, body_detail = None\<rparr>\<rparr>
             = ObjectBody \<lparr>body_error = Some m, body_detail = None\<rparr>" for st m by simp
  have b: "body_error \<lparr>body_error = Some m, body_detail = None\<rparr> = Some m" for m by simp
  have 1: "shown_classification (ai_settle 0 (click complete
       (Inl (server_rejection 429 ''You exceeded your current quota, check billing''))
       (initial_world None))) = QuotaOrKeyError"
    using failed_request_classification [OF en ed r d b, of complete "''You exceeded your current quota, check billing''" 429]
    unfolding p by simp
  have 2: "shown_classification (ai_settle 0 (click document
       (Inl (server_rejection 500 ''proxies argument not supported''))
       (initial_world None))) = ConfigurationError"
    using failed_request_classification [OF en ed r d b, of document "''proxies argument not supported''" 500]
    unfolding p by simp
  have 3: "shown_classification (ai_settle 0 (click explain
       (Inl (server_rejection 503 ''model overloaded''))
       (initial_world None))) = GenericError ''Failed to explain code with AI: model overloaded''"
    using failed_request_classification [OF en ed r d b, of explain "''model overloaded''" 503]
    unfolding p by (simp add: failure_prefix_def)
  from 1 2 3 show ?thesis by simp
qed

text \<open>
  Claim C2 as it stands fails for the message \<open>Configuration Error: model not found\<close>. It
  holds none of the substrings of the claim, so the claim's function makes it a generic
  error, and the service throws it unchanged; the page shows the configuration error.
\<close>

theorem classification_counterexample:
  "spec_classification ''Configuration Error: model not found''
     = GenericError ''Configuration Error: model not found''
   \<and> getCompletion_catch (server_rejection 500 ''Configuration Error: model not found'')
     = Error ''Configuration Error: model not found''
   \<and> shown_classification
       (run [Click complete (Inl (server_rejection 500 ''Configuration Error: model not found'')),
             AiSettle 0] (initial_world None))
     = ConfigurationError"
  by (simp add: spec_classification_def getCompletion_catch_def server_rejection_def
      shown_classification_def initial_world_def click_def disabled_def ai_handler_start_def
      ai_start_def ai_service_call_def getCodeCompletion_def getCompletion_def ai_settle_def
      ai_handler_finish_def ai_catch_def Let_def)

subsection \<open>C3: the blocking flags disable the AI actions\<close>

text \<open>
  Claim C3. In a state where the quota flag or the configuration flag is set, the four
  action buttons are disabled and a click on any of them changes nothing. Whatever
  happens next (any sequence of events), the buttons stay disabled, a flag that is set
  stays set, and no request is sent to the AI endpoint: nothing retries.
\<close>

theorem blocking_flags_disable_actions:
  assumes "isQuotaError w \<or> isConfigError w"
  shows "disabled w
     \<and> (\<forall>a answer. click a answer w = w)
     \<and> disabled (run es w)
     \<and> (isQuotaError w \<longrightarrow> isQuotaError (run es w))
     \<and> (isConfigError w \<longrightarrow> isConfigError (run es w))
     \<and> ai_calls (run es w) = ai_calls w"
proof -
  from run_flags [OF assms, of es]
  have r: "isQuotaError w \<longrightarrow> isQuotaError (run es w)"
    "isConfigError w \<longrightarrow> isConfigError (run es w)"
    "ai_calls (run es w) = ai_calls w" by auto
  with assms have "isQuotaError (run es w) \<or> isConfigError (run es w)" by auto
  then have "disabled (run es w)" by (auto simp: disabled_def)
  moreover from assms have "disabled w" by (auto simp: disabled_def)
  moreover have "\<forall>a answer. click a answer w = w" using click_blocked [OF assms] by simp
  ultimately show ?thesis using r by simp
qed

text \<open>The state after a quota failure, followed by clicks, an edit and a closed notification.\<close>

theorem blocking_flags_disable_actions_witness:
  "isQuotaError quota_world
   \<and> disabled quota_world
   \<and> click document (Inr (plain_answer ''doc'')) quota_world = quota_world
   \<and> click remove (Inr (plain_answer ''doc'')) quota_world = quota_world
   \<and> isQuotaError (run [Click explain (Inr (plain_answer ''doc'')), EditorChange (Some ''x''),
                         Elapse 500, CloseSnackbar, Click complete (Inr (plain_answer ''y''))] quota_world)
   \<and> ai_calls (run [Click explain (Inr (plain_answer ''doc'')), EditorChange (Some ''x''),
                     Elapse 500, CloseSnackbar, Click complete (Inr (plain_answer ''y''))] quota_world)
       = ai_calls quota_world"
proof -
  have h: "isQuotaError quota_world" by (simp add: quota_world_eval)
  then have "isQuotaError quota_world \<or> isConfigError quota_world" by simp
  from blocking_flags_disable_actions
         [OF this, of "[Click explain (Inr (plain_answer ''doc'')), EditorChange (Some ''x''),
                        Elapse 500, CloseSnackbar, Click complete (Inr (plain_answer ''y''))]"] h
  show ?thesis by blast
qed

subsection \<open>C4: insert at cursor\<close>

text \<open>
  Claim C4 asks that insert-at-cursor replaces the selection only (the whole text when
  nothing is selected) and that the editor's text and the mirrored code state change
  consistently. The theorem states what \<open>handleInsertAtCursor\<close> does with a selection
  from offset \<open>i\<close> to offset \<open>j\<close>: the editor's text keeps what stands before and after
  the selection around the AI response, while the code state becomes the AI response
  alone. The two agree only when the selection covers the whole text.
\<close>

theorem insert_with_selection_splits_state:
  assumes "truthy (aiResponse w)" and "editor_model w = Some buf"
    and "editor_selection w = Some (i, j)" and "i \<le> j" and "j \<le> length buf"
  shows "editor_model (handleInsertAtCursor w) = Some (take i buf @ the (aiResponse w) @ drop j buf)
     \<and> code (handleInsertAtCursor w) = the (aiResponse w)"
  using assms by (simp add: handleInsertAtCursor_def replace_range_def Let_def max_def)

text \<open>
  With the text \<open>abcdef\<close>, the selection \<open>cd\<close> and the response \<open>X\<close>, the editor holds
  \<open>abXef\<close> and the code state \<open>X\<close>.
\<close>

theorem insert_with_selection_splits_state_witness:
  "editor_model (step InsertAtCursor (run insert_trace (initial_world None))) = Some ''abXef''
   \<and> code (step InsertAtCursor (run insert_trace (initial_world None))) = ''X''"
proof -
  let ?w = "run insert_trace (initial_world None)"
  have t: "truthy (aiResponse ?w)" by (simp add: insert_trace_eval truthy_def)
  have m: "editor_model ?w = Some ''abcdef''" by (simp add: insert_trace_eval)
  have s: "editor_selection ?w = Some (2, 4)" by (simp add: insert_trace_eval)
  have v: "insert_visible ?w" by (simp add: insert_trace_eval)
  from insert_with_selection_splits_state [OF t m s] insert_trace_eval v
  show ?thesis by simp
qed

subsection \<open>C5: the provider suffix\<close>

text \<open>
  Claim C5. When the backend answers with a response \<open>r\<close>, each of the three entry points
  returns the response text followed by two line feeds and \<open> (via P)\<close> if \<open>r\<close> declares a
  provider name \<open>P\<close>, and the response text exactly if it declares none. A provider that
  is the empty string counts as none, as for every truthiness test of the source.
\<close>

theorem provider_suffix_appended:
  "fst (getCodeCompletion (\<lambda>_. Inr r) src lang) =
     Inr (if truthy (provider r) then response r @ [LF, LF] @ '' (via '' @ the (provider r) @ '')''
          else response r)
   \<and> fst (generateDocumentation (\<lambda>_. Inr r) src lang) =
     Inr (if truthy (provider r) then response r @ [LF, LF] @ '' (via '' @ the (provider r) @ '')''
          else response r)
   \<and> fst (explainCode (\<lambda>_. Inr r) src lang) =
     Inr (if truthy (provider r) then response r @ [LF, LF] @ '' (via '' @ the (provider r) @ '')''
          else response r)"
  by (simp add: getCodeCompletion_def generateDocumentation_def explainCode_def
      getCompletion_def with_provider_def Let_def)

text \<open>
  The same answer of the backend without a provider and with the provider \<open>gemini\<close>.
\<close>

theorem provider_suffix_appended_witness:
  "fst (getCodeCompletion
          (\<lambda>_. Inr \<lparr>response = '' # adds two numbers'', resp_model = ''x'', timestamp = ''t'',
                      provider = None\<rparr>)
          ''def add(a, b):'' ''python'')
     = Inr '' # adds two numbers''
   \<and> fst (generateDocumentation
          (\<lambda>_. Inr \<lparr>response = ''Adds.'', resp_model = ''x'', timestamp = ''t'',
                      provider = Some ''gemini''\<rparr>)
          ''def add(a, b):'' ''python'')
     = Inr (''Adds.'' @ [LF, LF] @ '' (via gemini)'')"
  using provider_suffix_appended
          [of "\<lparr>response = '' # adds two numbers'', resp_model = ''x'', timestamp = ''t'',
                provider = None\<rparr>" "''def add(a, b):''" "''python''"]
        provider_suffix_appended
          [of "\<lparr>response = ''Adds.'', resp_model = ''x'', timestamp = ''t'',
                provider = Some ''gemini''\<rparr>" "''def add(a, b):''" "''python''"]
  by (simp add: truthy_def)

subsection \<open>C6: a failed suggestion request\<close>

text \<open>
  Claim C6, as amended. A suggestion request fails: by a rejection of any category, except
  a server error whose response body is the JSON value \<open>null\<close>, or by a 2xx answer whose
  data is \<open>null\<close> or has no \<open>suggestions\<close>. Then the list of suggestions becomes empty and
  a generic error message (never empty) is set; the transient notification shows it exactly
  when neither blocking flag was set before. No answer to a suggestion request, of any
  kind, changes the quota flag or the configuration flag.
\<close>

theorem suggestion_failure_clears_list:
  assumes "err_code e = Some ''ECONNREFUSED'' \<or> (\<forall>r. err_response e = Some r \<longrightarrow> data r \<noteq> NullBody)"
  shows "(\<exists>msg. suggestion_error_message (Axios e) = Inr msg \<and> msg \<noteq> []
            \<and> error (getSuggestions_settle (Inl e) w) = Some msg)
   \<and> suggestions (getSuggestions_settle (Inl e) w) = ArrayValue []
   \<and> snackbar_open (getSuggestions_settle (Inl e) w) = (\<not> isQuotaError w \<and> \<not> isConfigError w)
   \<and> error (getSuggestions_settle (Inr (ObjectData FalsyField)) w)
       = Some ''Failed to fetch code suggestions. Please try again.''
   \<and> suggestions (getSuggestions_settle (Inr (ObjectData FalsyField)) w) = ArrayValue []
   \<and> snackbar_open (getSuggestions_settle (Inr (ObjectData FalsyField)) w)
       = (\<not> isQuotaError w \<and> \<not> isConfigError w)
   \<and> error (getSuggestions_settle (Inr NullData) w)
       = Some ''Failed to fetch code suggestions. Please try again.''
   \<and> suggestions (getSuggestions_settle (Inr NullData) w) = ArrayValue []
   \<and> snackbar_open (getSuggestions_settle (Inr NullData) w)
       = (\<not> isQuotaError w \<and> \<not> isConfigError w)
   \<and> isQuotaError (getSuggestions_settle outcome w) = isQuotaError w
   \<and> isConfigError (getSuggestions_settle outcome w) = isConfigError w"
proof -
  from suggestion_error_message_found [OF assms] obtain msg where
    m: "suggestion_error_message (Axios e) = Inr msg" by blast
  then have n: "msg \<noteq> []" by (rule suggestion_error_message_nonempty)
  have 1: "error (getSuggestions_settle (Inl e) w) = Some msg"
    "suggestions (getSuggestions_settle (Inl e) w) = ArrayValue []"
    "snackbar_open (getSuggestions_settle (Inl e) w) = (\<not> isQuotaError w \<and> \<not> isConfigError w)"
    using m n by (simp_all add: getSuggestions_settle_def getSuggestions_catch_def snackbar_open_def truthy_def)
  have 2: "error (getSuggestions_settle (Inr (ObjectData FalsyField)) w)
       = Some ''Failed to fetch code suggestions. Please try again.''"
    "suggestions (getSuggestions_settle (Inr (ObjectData FalsyField)) w) = ArrayValue []"
    "snackbar_open (getSuggestions_settle (Inr (ObjectData FalsyField)) w)
       = (\<not> isQuotaError w \<and> \<not> isConfigError w)"
    "error (getSuggestions_settle (Inr NullData) w)
       = Some ''Failed to fetch code suggestions. Please try again.''"
    "suggestions (getSuggestions_settle (Inr NullData) w) = ArrayValue []"
    "snackbar_open (getSuggestions_settle (Inr NullData) w)
       = (\<not> isQuotaError w \<and> \<not> isConfigError w)"
    by (simp_all add: getSuggestions_settle_def getSuggestions_catch_def suggestion_error_message_def
        snackbar_open_def truthy_def)
  from m n 1 2 suggest_settle_flags [of outcome w] show ?thesis by blast
qed

text \<open>
  A server error with the body \<open>{error: boom}\<close> on a fresh page that shows one suggestion.
\<close>

theorem suggestion_failure_clears_list_witness:
  "error (getSuggestions_settle (Inl (server_rejection 500 ''boom''))
            ((initial_world None)\<lparr>suggestions := ArrayValue [\<lparr>completion_text = ''y'', confidence = 1\<rparr>]\<rparr>))
     = Some ''Server error: boom''
   \<and> suggestions (getSuggestions_settle (Inl (server_rejection 500 ''boom''))
            ((initial_world None)\<lparr>suggestions := ArrayValue [\<lparr>completion_text = ''y'', confidence = 1\<rparr>]\<rparr>))
     = ArrayValue []
   \<and> snackbar_open (getSuggestions_settle (Inl (server_rejection 500 ''boom''))
            ((initial_world None)\<lparr>suggestions := ArrayValue [\<lparr>completion_text = ''y'', confidence = 1\<rparr>]\<rparr>))"
proof -
  let ?w = "(initial_world None)\<lparr>suggestions := ArrayValue [\<lparr>completion_text = ''y'', confidence = 1\<rparr>]\<rparr>"
  have h: "err_code (server_rejection 500 ''boom'') = Some ''ECONNREFUSED''
       \<or> (\<forall>r. err_response (server_rejection 500 ''boom'') = Some r \<longrightarrow> data r \<noteq> NullBody)"
    by (auto simp: server_rejection_def)
  have m: "suggestion_error_message (Axios (server_rejection 500 ''boom'')) = Inr ''Server error: boom''"
    by (simp add: suggestion_error_message_def server_rejection_def truthy_def)
  have f: "\<not> isQuotaError ?w \<and> \<not> isConfigError ?w" by (simp add: initial_world_def)
  from suggestion_failure_clears_list [OF h, of ?w] m f show ?thesis by auto
qed

text \<open>
  Claim C6 as it stands fails twice. After a quota failure of an AI action, a suggestion
  request that gets no answer sets the error state, and the notification stays closed.
  And on a fresh page that shows one suggestion, a server error whose body is \<open>null\<close>
  leaves the suggestion in the list and sets no error: line 136 throws before lines 141
  and 142 are reached.
\<close>

theorem suggestion_failure_counterexample:
  "error (run [EditorChange (Some ''x''), Elapse 500, SuggestSettle (Inl network_rejection)] quota_world)
     = Some ''No response from server. Please check your connection.''
   \<and> \<not> snackbar_open (run [EditorChange (Some ''x''), Elapse 500, SuggestSettle (Inl network_rejection)] quota_world)
   \<and> suggestions (run [EditorChange (Some ''x''), Elapse 500,
        SuggestSettle (Inr (ObjectData (TruthyField (ArrayValue [\<lparr>completion_text = ''y'', confidence = 1\<rparr>])))),
        EditorChange (Some ''xy''), Elapse 500, SuggestSettle (Inl null_body_rejection)]
        (initial_world None))
     = ArrayValue [\<lparr>completion_text = ''y'', confidence = 1\<rparr>]
   \<and> error (run [EditorChange (Some ''x''), Elapse 500,
        SuggestSettle (Inr (ObjectData (TruthyField (ArrayValue [\<lparr>completion_text = ''y'', confidence = 1\<rparr>])))),
        EditorChange (Some ''xy''), Elapse 500, SuggestSettle (Inl null_body_rejection)]
        (initial_world None))
     = None"
  by (simp add: quota_world_eval initial_world_def onChange_def handleEditorChange_def truthy_def
      elapse_def getSuggestions_send_def getSuggestions_settle_def getSuggestions_catch_def
      suggestion_error_message_def network_rejection_def null_body_rejection_def
      snackbar_open_def Let_def)

subsection \<open>C7: the request of each AI action\<close>

text \<open>
  Claim C7. Whatever the backend answers, each entry point sends exactly the one request
  of its kind to the AI endpoint: completion with temperature 0.3, documentation with 0.5,
  explanation with 0.7, each with its request type, the language, its prompt, and the
  system prompt of its kind, which is that kind's fixed three-line text with the language
  name put in at its one place.
\<close>

theorem ai_request_per_kind:
  "snd (getCodeCompletion backend src lang) =
     [axios_post (API_URL @ ''/ai/completion'')
        (AIBody \<lparr>prompt = src, model = None,
                 system_prompt = Some
                   (''You are an expert '' @ lang @ '' programmer. '' @ [CHR 0x0A] @
                    ''    Provide code completion that is concise, efficient, and follows best practices.'' @ [CHR 0x0A] @
                    ''    Only return code without explanation.''),
                 temperature = Some (3 / 10), max_tokens = None, req_language = Some lang,
                 request_type = Some completion\<rparr>)]
   \<and> snd (generateDocumentation backend src lang) =
     [axios_post (API_URL @ ''/ai/completion'')
        (AIBody \<lparr>prompt = ''Generate documentation for the following '' @ lang @ '' code:''
                            @ [CHR 0x0A, CHR 0x0A] @ src,
                 model = None,
                 system_prompt = Some
                   (''You are an expert at writing documentation. '' @ [CHR 0x0A] @
                    ''    Analyze the provided '' @ lang @ '' code and generate clear, comprehensive documentation'' @ [CHR 0x0A] @
                    ''    that explains what the code does, any parameters, return values, and important details.''),
                 temperature = Some (5 / 10), max_tokens = None, req_language = Some lang,
                 request_type = Some documentation\<rparr>)]
   \<and> snd (explainCode backend src lang) =
     [axios_post (API_URL @ ''/ai/completion'')
        (AIBody \<lparr>prompt = ''Explain this '' @ lang @ '' code in simple terms:''
                            @ [CHR 0x0A, CHR 0x0A] @ src,
                 model = None,
                 system_prompt = Some
                   (''You are a programming teacher who explains code in simple terms.'' @ [CHR 0x0A] @
                    ''    Analyze the provided '' @ lang @ '' code and explain what it does in clear, concise language'' @ [CHR 0x0A] @
                    ''    that a junior developer would understand. Focus on the purpose and logic, not line-by-line details.''),
                 temperature = Some (7 / 10), max_tokens = None, req_language = Some lang,
                 request_type = Some explanation\<rparr>)]"
  by (simp add: getCodeCompletion_def generateDocumentation_def explainCode_def
      getCompletion_def LF_def Let_def)

text \<open>
  The completion request for the language \<open>python\<close>, sent all the same when the backend
  does not answer; its system prompt names the language.
\<close>

theorem ai_request_per_kind_witness:
  "snd (getCodeCompletion (\<lambda>_. Inl network_rejection) ''def add(a, b):'' ''python'') =
     [axios_post ''http://localhost:5002/api/ai/completion''
        (AIBody \<lparr>prompt = ''def add(a, b):'', model = None,
                 system_prompt = Some
                   (''You are an expert python programmer. '' @ [CHR 0x0A] @
                    ''    Provide code completion that is concise, efficient, and follows best practices.'' @ [CHR 0x0A] @
                    ''    Only return code without explanation.''),
                 temperature = Some (3 / 10), max_tokens = None, req_language = Some ''python'',
                 request_type = Some completion\<rparr>)]
   \<and> str_includes
        (''You are an expert python programmer. '' @ [CHR 0x0A] @
         ''    Provide code completion that is concise, efficient, and follows best practices.'' @ [CHR 0x0A] @
         ''    Only return code without explanation.'') ''python''"
  using ai_request_per_kind [of "\<lambda>_. Inl network_rejection" "''def add(a, b):''" "''python''"]
  by (simp add: API_URL_def)

subsection \<open>C8: timeout, headers and one request for each trigger\<close>

text \<open>
  Claim C8, as amended. Every request the page has sent, after any sequence of events from
  its start, is sent with the timeout of 10000 ms and the header \<open>Accept\<close> set to
  \<open>application/json\<close>; a request with a body is also sent with \<open>Content-Type\<close> set to
  \<open>application/json\<close>, and a request without a body is sent without this header. A click
  on an action button sends exactly one request when the button is enabled, except that
  Clean sends none when there is no editor model; a disabled button sends none. The
  arrival of an answer, success or failure, of an AI action or of a suggestion request,
  sends nothing.
\<close>

theorem one_call_per_trigger:
  "list_all (\<lambda>c. call_timeout c = 10000
             \<and> map_of (call_headers c) ''Accept'' = Some ''application/json''
             \<and> map_of (call_headers c) ''Content-Type'' =
                   (if body c = NoBody then None else Some ''application/json''))
     (http_log (run es (initial_world env)))
   \<and> length (http_log (click a answer w)) =
       length (http_log w) + (if disabled w \<or> (a = remove \<and> editor_model w = None) then 0 else 1)
   \<and> http_log (ai_settle n w) = http_log w
   \<and> http_log (getSuggestions_settle outcome w) = http_log w"
  using run_sent_ok [of "initial_world env" es] click_log [of a answer w] ai_settle_log [of n w]
    suggest_settle_log [of outcome w]
  unfolding sent_ok_eq by (simp add: initial_world_def)

text \<open>A run with three requests, the last one an AI action that fails.\<close>

theorem one_call_per_trigger_witness:
  "list_all (\<lambda>c. call_timeout c = 10000
             \<and> map_of (call_headers c) ''Accept'' = Some ''application/json''
             \<and> map_of (call_headers c) ''Content-Type'' =
                   (if body c = NoBody then None else Some ''application/json''))
     (http_log (run [Mount, EditorChange (Some ''x''), Elapse 500, Click complete (Inl network_rejection)]
                    (initial_world None)))
   \<and> length (http_log (run [Mount, EditorChange (Some ''x''), Elapse 500, Click complete (Inl network_rejection)]
                    (initial_world None))) = 3
   \<and> length (http_log (click explain (Inl network_rejection) (initial_world None))) = 1"
proof -
  have n: "\<not> disabled (initial_world None)" by (simp add: initial_world_def disabled_def)
  have l: "http_log (initial_world None) = []" by (simp add: initial_world_def)
  have 1: "length (http_log (run [Mount, EditorChange (Some ''x''), Elapse 500, Click complete (Inl network_rejection)]
                    (initial_world None))) = 3"
    by (simp add: initial_world_def verifyBackendConnection_def onChange_def handleEditorChange_def
        truthy_def elapse_def getSuggestions_send_def click_def disabled_def ai_handler_start_def
        ai_start_def ai_service_call_def getCodeCompletion_def getCompletion_def Let_def)
  from one_call_per_trigger
         [of "[Mount, EditorChange (Some ''x''), Elapse 500, Click complete (Inl network_rejection)]"
             None explain "Inl network_rejection" "initial_world None"] n l 1
  show ?thesis by simp
qed

text \<open>
  Claim C8 as it stands fails twice. The connection check of the page is a GET without a
  body, which leaves without a \<open>Content-Type\<close> header. And on a fresh page, before the
  editor has a model, the Clean button is enabled and a click sends nothing.
\<close>

theorem one_call_per_trigger_counterexample:
  "http_log (step Mount (initial_world None)) =
     [\<lparr>call_verb = GET, url = ''http://127.0.0.1:5002/'', body = NoBody, call_timeout = 10000,
       call_headers = [(''Accept'', ''application/json'')]\<rparr>]
   \<and> \<not> disabled (initial_world None)
   \<and> http_log (step (Click remove (Inr (plain_answer ''x''))) (initial_world None)) = []"
  by (simp add: initial_world_def verifyBackendConnection_def axios_get_def axios_defaults_def
      axios_library_defaults_def set_header_def sent_headers_def BACKEND_URL_def truthy_def
      click_def disabled_def ai_handler_start_def ai_start_def ai_service_call_def Let_def)

subsection \<open>C9: an empty change of the editor\<close>

text \<open>
  Claim C9. \<open>handleEditorChange\<close> with \<open>undefined\<close> or with the empty string leaves the
  whole state as it is: the code is unchanged and no timer is set. With a non-empty value
  it sets the code to the value and adds one timer for it, due 500 ms later.
\<close>

theorem empty_change_is_ignored:
  "handleEditorChange None w = (w, None)
   \<and> handleEditorChange (Some []) w = (w, None)
   \<and> (v \<noteq> [] \<longrightarrow>
        code (fst (handleEditorChange (Some v) w)) = v
        \<and> timers (fst (handleEditorChange (Some v) w)) =
            timers w @ [\<lparr>timer_id = next_timer w, due = clock w + 500, snippet = v,
                          snippet_language = language w\<rparr>])"
  by (simp add: handleEditorChange_def truthy_def Let_def)

text \<open>On a fresh page, for the value \<open>x = 1\<close>.\<close>

theorem empty_change_is_ignored_witness:
  "handleEditorChange None (initial_world None) = (initial_world None, None)
   \<and> handleEditorChange (Some []) (initial_world None) = (initial_world None, None)
   \<and> ''x = 1'' \<noteq> []
   \<and> code (fst (handleEditorChange (Some ''x = 1'') (initial_world None))) = ''x = 1''
   \<and> timers (fst (handleEditorChange (Some ''x = 1'') (initial_world None))) =
        [\<lparr>timer_id = 1, due = 500, snippet = ''x = 1'', snippet_language = ''python''\<rparr>]"
  using empty_change_is_ignored [of "initial_world None" "''x = 1''"]
  by (simp add: initial_world_def)

subsection \<open>C10: an answer without suggestions\<close>

text \<open>
  Claim C10, as amended. When a 2xx answer of the suggestion endpoint has no \<open>suggestions\<close>
  field (or a falsy one), the answer is not applied: the list of suggestions becomes the
  empty array, the error state is set to the generic message and the loading flag is
  cleared. A truthy \<open>suggestions\<close> value is stored as it is. So the list of suggestions
  is an array after every sequence of events in which each truthy \<open>suggestions\<close> value
  that arrives is an array.
\<close>

theorem missing_suggestions_is_failure:
  "getSuggestions_settle (Inr (ObjectData FalsyField)) w =
     w\<lparr>error := Some ''Failed to fetch code suggestions. Please try again.'',
       suggestions := ArrayValue [], loading := False\<rparr>
   \<and> getSuggestions_settle (Inr (ObjectData (TruthyField v))) w = w\<lparr>suggestions := v, loading := False\<rparr>
   \<and> (list_all array_answer es \<and> is_array (suggestions w) \<longrightarrow> is_array (suggestions (run es w)))"
  using run_keeps_array [of es w]
  by (simp add: getSuggestions_settle_def getSuggestions_catch_def suggestion_error_message_def)

text \<open>
  A fresh page receives one suggestion and then an answer without the field.
\<close>

theorem missing_suggestions_is_failure_witness:
  "getSuggestions_settle (Inr (ObjectData FalsyField)) (initial_world None) =
     (initial_world None)\<lparr>error := Some ''Failed to fetch code suggestions. Please try again.'',
       suggestions := ArrayValue [], loading := False\<rparr>
   \<and> list_all array_answer
        [EditorChange (Some ''x''), Elapse 500,
         SuggestSettle (Inr (ObjectData (TruthyField (ArrayValue [\<lparr>completion_text = ''y'', confidence = 1\<rparr>])))),
         EditorChange (Some ''xy''), Elapse 500, SuggestSettle (Inr (ObjectData FalsyField))]
   \<and> is_array (suggestions (initial_world None))
   \<and> is_array (suggestions (run
        [EditorChange (Some ''x''), Elapse 500,
         SuggestSettle (Inr (ObjectData (TruthyField (ArrayValue [\<lparr>completion_text = ''y'', confidence = 1\<rparr>])))),
         EditorChange (Some ''xy''), Elapse 500, SuggestSettle (Inr (ObjectData FalsyField))]
        (initial_world None)))"
proof -
  let ?es = "[EditorChange (Some ''x''), Elapse 500,
         SuggestSettle (Inr (ObjectData (TruthyField (ArrayValue [\<lparr>completion_text = ''y'', confidence = 1\<rparr>])))),
         EditorChange (Some ''xy''), Elapse 500, SuggestSettle (Inr (ObjectData FalsyField))]"
  have a: "list_all array_answer ?es" by simp
  have b: "is_array (suggestions (initial_world None))" by (simp add: initial_world_def)
  from missing_suggestions_is_failure [of "initial_world None" _ ?es] a b
  show ?thesis by blast
qed

text \<open>
  Claim C10 as it stands says that the rendered list is always an array. The test of line
  124 is one of truthiness: an answer whose \<open>suggestions\<close> is the string \<open>abc\<close> passes
  it and line 128 stores the string, which has no \<open>map\<close> for line 571.
\<close>

theorem stored_non_array_counterexample:
  "suggestions (run [EditorChange (Some ''x''), Elapse 500,
                     SuggestSettle (Inr (ObjectData (TruthyField (OtherValue ''abc''))))]
                    (initial_world None)) = OtherValue ''abc''
   \<and> \<not> is_array (suggestions (run [EditorChange (Some ''x''), Elapse 500,
                     SuggestSettle (Inr (ObjectData (TruthyField (OtherValue ''abc''))))]
                    (initial_world None)))"
  by (simp add: initial_world_def onChange_def handleEditorChange_def truthy_def elapse_def
      getSuggestions_send_def getSuggestions_settle_def Let_def)

end
